theory Spec2Isabelle
  imports Main "HOL-Library.Word"
begin

section \<open>Strings and POSIX path arithmetic\<close>

text \<open>
  The server (\<^verbatim>\<open>containers/repo-analyzer/server.py\<close>) manipulates paths with
  \<^verbatim>\<open>os.path.join\<close>, \<^verbatim>\<open>os.path.abspath\<close>, \<^verbatim>\<open>os.path.relpath\<close>,
  \<^verbatim>\<open>str.startswith\<close>, the \<^verbatim>\<open>in\<close> substring test and \<^verbatim>\<open>str.replace\<close>.
  They are pure string functions and are written out here after \<^verbatim>\<open>posixpath.py\<close>.
\<close>

fun startswith :: "string \<Rightarrow> string \<Rightarrow> bool" where
  "startswith s [] = True"
| "startswith [] (p # ps) = False"
| "startswith (c # s) (p # ps) = (c = p \<and> startswith s ps)"

text \<open>\<^verbatim>\<open>sub in s\<close>: some suffix of \<open>s\<close> starts with \<open>sub\<close>.\<close>

fun contains :: "string \<Rightarrow> string \<Rightarrow> bool" where
  "contains sub [] = (sub = [])"
| "contains sub (c # s) = (startswith (c # s) sub \<or> contains sub s)"

text \<open>
  \<^verbatim>\<open>s.replace(old, new)\<close> for a non-empty \<open>old\<close>: scanning from the left, every
  occurrence found is replaced and the scan goes on behind it.
\<close>

fun replace :: "string \<Rightarrow> string \<Rightarrow> string \<Rightarrow> string" where
  "replace old new [] = []"
| "replace old new (c # s) =
     (if old \<noteq> [] \<and> startswith (c # s) old
      then new @ replace old new (drop (length old) (c # s))
      else c # replace old new s)"

text \<open>\<^verbatim>\<open>s.split(sep)\<close> for a one-character separator, and \<^verbatim>\<open>sep.join(xs)\<close>.\<close>

fun split_sep :: "char \<Rightarrow> string \<Rightarrow> string list" where
  "split_sep sep [] = [[]]"
| "split_sep sep (c # s) =
     (if c = sep then [] # split_sep sep s
      else (case split_sep sep s of
              [] \<Rightarrow> [[c]]
            | w # ws \<Rightarrow> (c # w) # ws))"

fun join_sep :: "string \<Rightarrow> string list \<Rightarrow> string" where
  "join_sep sep [] = []"
| "join_sep sep [x] = x"
| "join_sep sep (x # y # ys) = x @ sep @ join_sep sep (y # ys)"

definition endswith_sep :: "string \<Rightarrow> bool" where
  "endswith_sep s = (s \<noteq> [] \<and> last s = CHR ''/'')"

text \<open>\<^verbatim>\<open>posixpath.join(a, b)\<close> with one extra component.\<close>

definition join :: "string \<Rightarrow> string \<Rightarrow> string" where
  "join a b =
     (if startswith b ''/'' then b
      else if a = [] \<or> endswith_sep a then a @ b
      else a @ ''/'' @ b)"

text \<open>
  The body of the loop of \<^verbatim>\<open>posixpath.normpath\<close>; \<open>init\<close> says that the path has
  initial slashes, \<open>new_comps\<close> is the list the loop appends to and pops from.
\<close>

definition norm_step :: "bool \<Rightarrow> string list \<Rightarrow> string \<Rightarrow> string list" where
  "norm_step init new_comps cmp =
     (if cmp = [] \<or> cmp = ''.'' then new_comps
      else if cmp \<noteq> ''..'' \<or> (\<not> init \<and> new_comps = [])
              \<or> (new_comps \<noteq> [] \<and> last new_comps = ''..'')
      then new_comps @ [cmp]
      else if new_comps \<noteq> [] then butlast new_comps
      else new_comps)"

definition initial_slashes :: "string \<Rightarrow> nat" where
  "initial_slashes path =
     (if startswith path ''/''
      then (if startswith path ''//'' \<and> \<not> startswith path ''///'' then 2 else 1)
      else 0)"

definition normpath :: "string \<Rightarrow> string" where
  "normpath path =
     (if path = [] then ''.''
      else
        let n = initial_slashes path;
            comps = foldl (norm_step (n \<noteq> 0)) [] (split_sep CHR ''/'' path);
            p = replicate n CHR ''/'' @ join_sep ''/'' comps
        in if p = [] then ''.'' else p)"

text \<open>\<^verbatim>\<open>os.path.abspath\<close>; \<open>cwd\<close> is what \<^verbatim>\<open>os.getcwd()\<close> returns.\<close>

definition abspath :: "string \<Rightarrow> string \<Rightarrow> string" where
  "abspath cwd path =
     normpath (if startswith path ''/'' then path else join cwd path)"

fun lstrip_sep :: "string \<Rightarrow> string" where
  "lstrip_sep [] = []"
| "lstrip_sep (c # s) = (if c = CHR ''/'' then lstrip_sep s else c # s)"

fun commonprefix_len :: "string list \<Rightarrow> string list \<Rightarrow> nat" where
  "commonprefix_len (x # xs) (y # ys) = (if x = y then Suc (commonprefix_len xs ys) else 0)"
| "commonprefix_len xs ys = 0"

text \<open>
  \<^verbatim>\<open>os.path.relpath(path, start)\<close>. Its \<^verbatim>\<open>ValueError\<close> for an empty \<open>path\<close> cannot
  arise in the server, which passes the join of a non-empty directory and a file name.
\<close>

definition relpath :: "string \<Rightarrow> string \<Rightarrow> string \<Rightarrow> string" where
  "relpath cwd path start =
     (let start_tail = lstrip_sep (abspath cwd start);
          path_tail = lstrip_sep (abspath cwd path);
          start_list = (if start_tail = [] then [] else split_sep CHR ''/'' start_tail);
          path_list = (if path_tail = [] then [] else split_sep CHR ''/'' path_tail);
          i = commonprefix_len start_list path_list;
          rel_list = replicate (length start_list - i) ''..'' @ drop i path_list
      in if rel_list = [] then ''.'' else join_sep ''/'' rel_list)"

section \<open>The filesystem\<close>

text \<open>
  A directory is the list of its entries in the order \<^verbatim>\<open>scandir\<close> reports them, a
  regular file is its bytes and whether the server's process may read it. There are no
  symbolic links. \<open>root\<close> holds the entries of \<^verbatim>\<open>/\<close>.
\<close>

type_synonym byte = "8 word"

datatype node = File bool "byte list" | Dir "(string \<times> node) list"

record world =
  root :: "(string \<times> node) list"
  cwd :: string

fun is_dir :: "node \<Rightarrow> bool" where
  "is_dir (Dir es) = True"
| "is_dir (File r bs) = False"

text \<open>
  Path resolution as the kernel does it, one component at a time: \<open>cur\<close> is the node
  reached, \<open>anc\<close> its ancestors (nearest first). A component can only be looked up in
  a directory, \<^verbatim>\<open>..\<close> of the root is the root.
\<close>

fun namei :: "node \<Rightarrow> node list \<Rightarrow> string list \<Rightarrow> node option" where
  "namei cur anc [] = Some cur"
| "namei (File r bs) anc (c # cs) = None"
| "namei (Dir es) anc (c # cs) =
     (if c = [] \<or> c = ''.'' then namei (Dir es) anc cs
      else if c = ''..'' then
        (case anc of [] \<Rightarrow> namei (Dir es) [] cs | p # ps \<Rightarrow> namei p ps cs)
      else
        (case map_of es c of
           None \<Rightarrow> None
         | Some n \<Rightarrow> namei n (Dir es # anc) cs))"

definition fs_lookup :: "world \<Rightarrow> string \<Rightarrow> node option" where
  "fs_lookup w p =
     (if p = [] then None
      else namei (Dir (root w)) []
             (split_sep CHR ''/'' (if startswith p ''/'' then p else join (cwd w) p)))"

text \<open>\<^verbatim>\<open>os.path.exists\<close> and \<^verbatim>\<open>os.path.isfile\<close>.\<close>

definition exists :: "world \<Rightarrow> string \<Rightarrow> bool" where
  "exists w p = (fs_lookup w p \<noteq> None)"

definition isfile :: "world \<Rightarrow> string \<Rightarrow> bool" where
  "isfile w p = (case fs_lookup w p of Some (File r bs) \<Rightarrow> True | _ \<Rightarrow> False)"

section \<open>Exceptions, messages and responses\<close>

datatype exn =
    TimeoutExpired
  | CalledProcessError "string list" int
  | OSError string
  | PermissionError string
  | IsADirectoryError string
  | FileNotFoundError string

text \<open>
  The text of an \<^verbatim>\<open>error\<close> field: a literal of the source (an f-string included), or
  \<^verbatim>\<open>str(e)\<close> of a caught exception, which is kept as the exception itself.
\<close>

datatype message = Text string | Str exn

text \<open>\<^verbatim>\<open>open(p, 'r', ...)\<close> followed by reading: the file's bytes, or the exception raised.\<close>

definition open_read :: "world \<Rightarrow> string \<Rightarrow> exn + byte list" where
  "open_read w p =
     (case fs_lookup w p of
        None \<Rightarrow> Inl (FileNotFoundError p)
      | Some (Dir es) \<Rightarrow> Inl (IsADirectoryError p)
      | Some (File r bs) \<Rightarrow> if r then Inr bs else Inl (PermissionError p))"

section \<open>Text mode: UTF-8 with \<^verbatim>\<open>errors='ignore'\<close>, universal newlines\<close>

text \<open>
  A Python \<^verbatim>\<open>str\<close> is a sequence of code points. The decoder follows CPython's: an
  invalid start byte is dropped alone, an invalid continuation drops the bytes before it,
  a sequence cut off by the end of the data drops the rest.
\<close>

type_synonym unicode = "nat list"

definition is_cont :: "byte \<Rightarrow> bool" where
  "is_cont b = (0x80 \<le> b \<and> b < 0xC0)"

definition cp2 :: "byte \<Rightarrow> byte \<Rightarrow> nat" where
  "cp2 b c = (unat b - 0xC0) * 64 + (unat c - 0x80)"

definition cp3 :: "byte \<Rightarrow> byte \<Rightarrow> byte \<Rightarrow> nat" where
  "cp3 b c d = (unat b - 0xE0) * 4096 + (unat c - 0x80) * 64 + (unat d - 0x80)"

definition cp4 :: "byte \<Rightarrow> byte \<Rightarrow> byte \<Rightarrow> byte \<Rightarrow> nat" where
  "cp4 b c d e =
     (unat b - 0xF0) * 262144 + (unat c - 0x80) * 4096 + (unat d - 0x80) * 64 + (unat e - 0x80)"

definition bad_second :: "byte \<Rightarrow> byte \<Rightarrow> bool" where
  "bad_second b c =
     (\<not> is_cont c \<or> (b = 0xE0 \<and> c < 0xA0) \<or> (b = 0xED \<and> 0xA0 \<le> c)
      \<or> (b = 0xF0 \<and> c < 0x90) \<or> (b = 0xF4 \<and> 0x90 \<le> c))"

fun utf8_ignore :: "byte list \<Rightarrow> unicode" where
  "utf8_ignore [] = []"
| "utf8_ignore (b # bs) =
     (if b < 0x80 then unat b # utf8_ignore bs
      else if b < 0xC2 \<or> 0xF5 \<le> b then utf8_ignore bs
      else
        (case bs of
           [] \<Rightarrow> []
         | c # cs \<Rightarrow>
             if b < 0xE0 then
               (if is_cont c then cp2 b c # utf8_ignore cs else utf8_ignore bs)
             else if bad_second b c then utf8_ignore bs
             else
               (case cs of
                  [] \<Rightarrow> []
                | d # ds \<Rightarrow>
                    if \<not> is_cont d then utf8_ignore cs
                    else if b < 0xF0 then cp3 b c d # utf8_ignore ds
                    else
                      (case ds of
                         [] \<Rightarrow> []
                       | e # es \<Rightarrow>
                           if is_cont e then cp4 b c d e # utf8_ignore es
                           else utf8_ignore ds))))"

text \<open>Text mode with the default \<^verbatim>\<open>newline=None\<close>: \<^verbatim>\<open>\r\n\<close> and \<^verbatim>\<open>\r\<close> are read as \<^verbatim>\<open>\n\<close>.\<close>

fun universal_newlines :: "unicode \<Rightarrow> unicode" where
  "universal_newlines [] = []"
| "universal_newlines [c] = (if c = 13 then [10] else [c])"
| "universal_newlines (c # d # cs) =
     (if c = 13 then
        (if d = 10 then 10 # universal_newlines cs else 10 # universal_newlines (d # cs))
      else c # universal_newlines (d # cs))"

definition decode :: "byte list \<Rightarrow> unicode" where
  "decode bs = universal_newlines (utf8_ignore bs)"

text \<open>
  \<^verbatim>\<open>f.read(sz)\<close> on a text file: \<open>sz\<close> counts decoded characters; \<^verbatim>\<open>None\<close> and a
  negative \<open>sz\<close> read to the end of the file.
\<close>

definition read_text :: "int option \<Rightarrow> byte list \<Rightarrow> unicode" where
  "read_text sz bs =
     (case sz of
        None \<Rightarrow> decode bs
      | Some n \<Rightarrow> if n < 0 then decode bs else take (nat n) (decode bs))"

datatype file_record = FileRecord (rec_path: string) (rec_size: nat)

datatype entry = Entry (entry_path: string) (entry_content: unicode) (entry_error: "message option")

text \<open>
  What a handler returns: an error body with its HTTP status, or one of the success
  bodies (status 200).
\<close>

datatype response =
    ErrorResponse nat message
  | Cloned string
  | FileList "file_record list"
  | FileContent string unicode
  | Analyzed "entry list"

section \<open>The handlers that read\<close>

definition REPO_DIR :: string where
  "REPO_DIR = ''/repos''"

text \<open>
  A request parameter is absent (\<^verbatim>\<open>None\<close>) or a string; \<^verbatim>\<open>not v\<close> holds of
  \<^verbatim>\<open>None\<close> and of the empty string.
\<close>

definition falsy :: "string option \<Rightarrow> bool" where
  "falsy v = (v = None \<or> v = Some [])"

text \<open>\<^verbatim>\<open>os.path.join(REPO_DIR, f"{owner}_{repo}")\<close>\<close>

definition repo_path_of :: "string \<Rightarrow> string \<Rightarrow> string" where
  "repo_path_of ow rp = join REPO_DIR (ow @ ''_'' @ rp)"

text \<open>The security check of \<^verbatim>\<open>get_file\<close> and \<^verbatim>\<open>analyze_files\<close>.\<close>

definition within_repo :: "world \<Rightarrow> string \<Rightarrow> string \<Rightarrow> bool" where
  "within_repo w repo_path full_path =
     startswith (abspath (cwd w) full_path) (abspath (cwd w) repo_path)"

definition get_file :: "world \<Rightarrow> string option \<Rightarrow> string option \<Rightarrow> string \<Rightarrow> response" where
  "get_file w owner repo file_path =
     (if falsy owner \<or> falsy repo
      then ErrorResponse 400 (Text ''Missing owner or repo parameter'')
      else
        let repo_path = repo_path_of (the owner) (the repo);
            full_path = join repo_path file_path
        in if \<not> within_repo w repo_path full_path
           then ErrorResponse 400 (Text ''Invalid file path'')
           else if \<not> exists w full_path
           then ErrorResponse 404 (Text ''File not found'')
           else if \<not> isfile w full_path
           then ErrorResponse 400 (Text ''Path is not a file'')
           else
             (case open_read w full_path of
                Inl e \<Rightarrow> ErrorResponse 500 (Str e)
              | Inr bs \<Rightarrow> FileContent file_path (read_text None bs)))"

text \<open>
  \<^verbatim>\<open>data.get('max_size', 8000)\<close>: the key is absent, or holds \<^verbatim>\<open>null\<close> or an integer.
\<close>

datatype max_size_arg = MaxAbsent | MaxNull | MaxInt int

fun max_size_of :: "max_size_arg \<Rightarrow> int option" where
  "max_size_of MaxAbsent = Some 8000"
| "max_size_of MaxNull = None"
| "max_size_of (MaxInt n) = Some n"

text \<open>
  The loop of \<^verbatim>\<open>analyze_files\<close>: \<open>results\<close> is the list it appends to, every
  \<^verbatim>\<open>continue\<close> and the end of the body go on with the rest of \<open>file_paths\<close>.
\<close>

fun analyze_loop ::
  "world \<Rightarrow> string \<Rightarrow> int option \<Rightarrow> string list \<Rightarrow> entry list \<Rightarrow> entry list" where
  "analyze_loop w repo_path max_size [] results = results"
| "analyze_loop w repo_path max_size (file_path # file_paths) results =
     (let full_path = join repo_path file_path
      in if \<not> within_repo w repo_path full_path
         then analyze_loop w repo_path max_size file_paths
                (results @ [Entry file_path [] (Some (Text ''Invalid file path''))])
         else if \<not> exists w full_path \<or> \<not> isfile w full_path
         then analyze_loop w repo_path max_size file_paths
                (results @ [Entry file_path [] (Some (Text ''File not found''))])
         else
           (case open_read w full_path of
              Inr bs \<Rightarrow>
                analyze_loop w repo_path max_size file_paths
                  (results @ [Entry file_path (read_text max_size bs) None])
            | Inl e \<Rightarrow>
                analyze_loop w repo_path max_size file_paths
                  (results @ [Entry file_path [] (Some (Str e))])))"

definition analyze_files ::
  "world \<Rightarrow> string option \<Rightarrow> string option \<Rightarrow> string list \<Rightarrow> max_size_arg \<Rightarrow> response" where
  "analyze_files w owner repo file_paths max_size =
     (if falsy owner \<or> falsy repo
      then ErrorResponse 400 (Text ''Missing owner or repo parameter'')
      else
        let repo_path = repo_path_of (the owner) (the repo)
        in if \<not> exists w repo_path
           then ErrorResponse 404 (Text ''Repository not cloned'')
           else Analyzed (analyze_loop w repo_path (max_size_of max_size) file_paths []))"

text \<open>
  \<^verbatim>\<open>list_files\<close>. \<^verbatim>\<open>os.walk\<close> yields a directory's own non-directory entries
  before it descends, in the order of \<open>dirs\<close> after the loop body has pruned it; a
  start that is not a directory yields nothing; \<open>walk_root\<close> is the loop's \<^verbatim>\<open>root\<close>. \<open>st_size\<close> of a file is the number of
  its bytes.
\<close>

definition file_records :: "string \<Rightarrow> string \<Rightarrow> string \<Rightarrow> (string \<times> node) list \<Rightarrow> file_record list" where
  "file_records cw repo_path walk_root filenames =
     concat (map (\<lambda>(filename, n).
        let file_path = join walk_root filename;
            rel_path = relpath cw file_path repo_path
        in if contains ''.git'' rel_path then []
           else (case n of File r bs \<Rightarrow> [FileRecord rel_path (length bs)] | Dir es \<Rightarrow> []))
      filenames)"

fun walk_files :: "string \<Rightarrow> string \<Rightarrow> string \<Rightarrow> node \<Rightarrow> file_record list" where
  "walk_files cw repo_path walk_root (File r bs) = []"
| "walk_files cw repo_path walk_root (Dir es) =
     file_records cw repo_path walk_root (filter (\<lambda>e. \<not> is_dir (snd e)) es)
     @ concat (map (\<lambda>e. walk_files cw repo_path (join walk_root (fst e)) (snd e))
         (filter (\<lambda>e. is_dir (snd e) \<and> fst e \<noteq> ''.git'') es))"

definition list_files :: "world \<Rightarrow> string option \<Rightarrow> string option \<Rightarrow> response" where
  "list_files w owner repo =
     (if falsy owner \<or> falsy repo
      then ErrorResponse 400 (Text ''Missing owner or repo parameter'')
      else
        let repo_path = repo_path_of (the owner) (the repo)
        in if \<not> exists w repo_path
           then ErrorResponse 404 (Text ''Repository not cloned'')
           else
             (case fs_lookup w repo_path of
                None \<Rightarrow> FileList []
              | Some n \<Rightarrow> FileList (walk_files (cwd w) repo_path repo_path n)))"

section \<open>The clone handler\<close>

text \<open>
  \<^verbatim>\<open>clone_repo\<close> runs two external programs with \<^verbatim>\<open>subprocess.run\<close>. What a
  run does is not in the server's source: it is a parameter here. A run of \<^verbatim>\<open>rm\<close>
  exits with a code or cannot be started (\<^verbatim>\<open>OSError\<close>); a run of \<^verbatim>\<open>git\<close>, which
  has \<^verbatim>\<open>timeout=300\<close> and captures its output as text, exits with a code and its
  standard error, is killed at the timeout, or cannot be started. Either leaves a
  filesystem behind. \<open>worktree\<close> names the tree that a shallow clone of a URL checks
  out, when there is one.
\<close>

datatype rm_outcome = RmExit int | RmOSError string

datatype git_outcome = GitExit int string | GitTimeout | GitOSError string

record tools =
  rm_rf :: "world \<Rightarrow> string \<Rightarrow> rm_outcome \<times> world"
  git_clone :: "world \<Rightarrow> string \<Rightarrow> string \<Rightarrow> git_outcome \<times> world"
  worktree :: "string \<Rightarrow> (string \<times> node) list option"

text \<open>
  \<^verbatim>\<open>repo_url.replace('https://', f'https://{token}@') if token else repo_url\<close>
\<close>

definition clone_url :: "string \<Rightarrow> string option \<Rightarrow> string" where
  "clone_url repo_url token =
     (if \<not> falsy token
      then replace ''https://'' (''https://'' @ the token @ ''@'') repo_url
      else repo_url)"

text \<open>
  The first statement of the \<^verbatim>\<open>try\<close> block: \<^verbatim>\<open>rm -rf\<close> with \<^verbatim>\<open>check=True\<close>,
  which raises \<^verbatim>\<open>CalledProcessError\<close> on a non-zero exit.
\<close>

definition remove_existing :: "tools \<Rightarrow> world \<Rightarrow> string \<Rightarrow> (exn + unit) \<times> world" where
  "remove_existing T w repo_path =
     (if exists w repo_path then
        (case rm_rf T w repo_path of
           (RmOSError m, w') \<Rightarrow> (Inl (OSError m), w')
         | (RmExit rc, w') \<Rightarrow>
             if rc \<noteq> 0 then (Inl (CalledProcessError [''rm'', ''-rf'', repo_path] rc), w')
             else (Inr (), w'))
      else (Inr (), w))"

text \<open>The \<^verbatim>\<open>try\<close> block: the exception that leaves it, or the response it returns.\<close>

definition clone_try ::
  "tools \<Rightarrow> world \<Rightarrow> string \<Rightarrow> string option \<Rightarrow> string \<Rightarrow> (exn + response) \<times> world" where
  "clone_try T w repo_url token repo_path =
     (case remove_existing T w repo_path of
        (Inl e, w1) \<Rightarrow> (Inl e, w1)
      | (Inr u, w1) \<Rightarrow>
          (case git_clone T w1 (clone_url repo_url token) repo_path of
             (GitTimeout, w2) \<Rightarrow> (Inl TimeoutExpired, w2)
           | (GitOSError m, w2) \<Rightarrow> (Inl (OSError m), w2)
           | (GitExit returncode stderr, w2) \<Rightarrow>
               if returncode \<noteq> 0
               then (Inr (ErrorResponse 500 (Text (''Git clone failed: '' @ stderr))), w2)
               else (Inr (Cloned repo_path), w2)))"

definition clone_repo ::
  "tools \<Rightarrow> world \<Rightarrow> string option \<Rightarrow> string option \<Rightarrow> string option \<Rightarrow> string option
     \<Rightarrow> response \<times> world" where
  "clone_repo T w repo_url owner repo token =
     (if falsy repo_url \<or> falsy owner \<or> falsy repo
      then (ErrorResponse 400 (Text ''Missing required parameters''), w)
      else
        let repo_path = repo_path_of (the owner) (the repo)
        in (case clone_try T w (the repo_url) token repo_path of
              (Inl TimeoutExpired, w') \<Rightarrow>
                (ErrorResponse 500 (Text ''Clone operation timed out''), w')
            | (Inl e, w') \<Rightarrow> (ErrorResponse 500 (Str e), w')
            | (Inr r, w') \<Rightarrow> (r, w')))"

section \<open>What the specification asks of the handlers\<close>

text \<open>
  Containment by path segments, as the specification words the resolver: the segments of
  the canonical root are the first segments of the canonical target.
\<close>

definition segments :: "string \<Rightarrow> string list" where
  "segments p = filter (\<lambda>c. c \<noteq> []) (split_sep CHR ''/'' p)"

definition segment_contained :: "string \<Rightarrow> string \<Rightarrow> bool" where
  "segment_contained canonical_root canonical_target =
     (take (length (segments canonical_root)) (segments canonical_target)
        = segments canonical_root)"


text \<open>
  The failure kinds of a clone in the specification's words, and which of them a clone
  meets: a deletion that fails, then what the version-control client does.
\<close>

datatype failure = ExternalToolFailure string | TimeoutFailure | UnexpectedFailure exn

definition deletion_failure :: "tools \<Rightarrow> world \<Rightarrow> string \<Rightarrow> exn option" where
  "deletion_failure T w repo_path =
     (if exists w repo_path then
        (case fst (rm_rf T w repo_path) of
           RmOSError m \<Rightarrow> Some (OSError m)
         | RmExit rc \<Rightarrow>
             if rc = 0 then None else Some (CalledProcessError [''rm'', ''-rf'', repo_path] rc))
      else None)"

definition after_deletion :: "tools \<Rightarrow> world \<Rightarrow> string \<Rightarrow> world" where
  "after_deletion T w repo_path =
     (if exists w repo_path then snd (rm_rf T w repo_path) else w)"

definition clone_failure ::
  "tools \<Rightarrow> world \<Rightarrow> string \<Rightarrow> string option \<Rightarrow> string \<Rightarrow> failure option" where
  "clone_failure T w repo_url token repo_path =
     (case deletion_failure T w repo_path of
        Some e \<Rightarrow> Some (UnexpectedFailure e)
      | None \<Rightarrow>
          (case fst (git_clone T (after_deletion T w repo_path) (clone_url repo_url token) repo_path) of
             GitTimeout \<Rightarrow> Some TimeoutFailure
           | GitOSError m \<Rightarrow> Some (UnexpectedFailure (OSError m))
           | GitExit rc diagnostic \<Rightarrow>
               if rc = 0 then None else Some (ExternalToolFailure diagnostic)))"

section \<open>A sample environment\<close>

text \<open>
  Tools that keep snapshots as the directories directly under \<^verbatim>\<open>/repos\<close>:
  \<open>sim_rm\<close> removes such a directory and exits 0, \<open>sim_git\<close> writes the tree that
  \<open>remote\<close> serves for the URL when nothing stands at the destination and exits 128
  otherwise. They are used to run the handlers on concrete inputs.
\<close>

definition snapshot_name :: "string \<Rightarrow> string option" where
  "snapshot_name p =
     (case split_sep CHR ''/'' p of
        [a, b, c] \<Rightarrow>
          if a = [] \<and> b = ''repos'' \<and> c \<noteq> [] \<and> c \<noteq> ''.'' \<and> c \<noteq> ''..'' then Some c else None
      | _ \<Rightarrow> None)"

definition set_repos :: "(string \<times> node) list \<Rightarrow> (string \<times> node) list \<Rightarrow> (string \<times> node) list" where
  "set_repos rt es = (''repos'', Dir es) # filter (\<lambda>e. fst e \<noteq> ''repos'') rt"

definition sim_rm :: "world \<Rightarrow> string \<Rightarrow> rm_outcome \<times> world" where
  "sim_rm w p =
     (case snapshot_name p of
        None \<Rightarrow> (RmExit 1, w)
      | Some name \<Rightarrow>
          (case map_of (root w) ''repos'' of
             Some (Dir es) \<Rightarrow>
               (RmExit 0, w\<lparr>root := set_repos (root w) (filter (\<lambda>e. fst e \<noteq> name) es)\<rparr>)
           | _ \<Rightarrow> (RmExit 0, w)))"

definition sim_git ::
  "(string \<Rightarrow> (string \<times> node) list option) \<Rightarrow> world \<Rightarrow> string \<Rightarrow> string \<Rightarrow> git_outcome \<times> world" where
  "sim_git remote w u p =
     (case snapshot_name p of
        None \<Rightarrow> (GitExit 128 ''fatal: could not create work tree dir'', w)
      | Some name \<Rightarrow>
          (case remote u of
             None \<Rightarrow> (GitExit 128 ''fatal: repository not found'', w)
           | Some t \<Rightarrow>
               (case map_of (root w) ''repos'' of
                  None \<Rightarrow> (GitExit 0 [], w\<lparr>root := set_repos (root w) [(name, Dir t)]\<rparr>)
                | Some (File r bs) \<Rightarrow> (GitExit 128 ''fatal: could not create leading directories'', w)
                | Some (Dir es) \<Rightarrow>
                    if map_of es name \<noteq> None
                    then (GitExit 128 ''fatal: destination path already exists'', w)
                    else (GitExit 0 [], w\<lparr>root := set_repos (root w) ((name, Dir t) # es)\<rparr>))))"

definition sim_tools :: "(string \<Rightarrow> (string \<times> node) list option) \<Rightarrow> tools" where
  "sim_tools remote = \<lparr>rm_rf = sim_rm, git_clone = sim_git remote, worktree = remote\<rparr>"

text \<open>
  Two remote repositories, and a filesystem holding the snapshots of the keys
  \<open>(a, b)\<close> and \<open>(a, bc)\<close>.
\<close>

definition sample_remote :: "string \<Rightarrow> (string \<times> node) list option" where
  "sample_remote u =
     (if u = ''https://github.com/a/b_c''
      then Some [(''.git'', Dir [(''HEAD'', File True [0x72])]), (''one.txt'', File True [0x31])]
      else if u = ''https://github.com/a_b/c''
      then Some [(''.git'', Dir [(''HEAD'', File True [0x72])]), (''two.txt'', File True [0x32, 0x32])]
      else None)"

definition sample_world :: world where
  "sample_world =
     \<lparr>root =
        [(''repos'', Dir
           [(''a_b'', Dir
              [(''README.md'', File True [0x68, 0x69]),
               (''.gitignore'', File True [0x2A]),
               (''.git'', Dir [(''HEAD'', File True [0x72])]),
               (''cafe.txt'', File True [0xC3, 0xA9, 0xC3, 0xA9]),
               (''locked'', File False [0x78]),
               (''src'', Dir [(''m.py'', File True [0x61, 0x62, 0x63])])]),
            (''a_bc'', Dir [(''secret'', File True [0x73])])]),
         (''etc'', Dir [(''passwd'', File True [0x72])])],
      cwd = ''/app''\<rparr>"

definition empty_world :: world where
  "empty_world = \<lparr>root = [(''repos'', Dir [])], cwd = ''/app''\<rparr>"

text \<open>Tools that fail: \<^verbatim>\<open>rm\<close> exits 1 and removes nothing, \<^verbatim>\<open>git\<close> runs into the timeout.\<close>

definition broken_tools :: tools where
  "broken_tools =
     \<lparr>rm_rf = (\<lambda>w p. (RmExit 1, w)), git_clone = (\<lambda>w u p. (GitTimeout, w)),
      worktree = (\<lambda>u. None)\<rparr>"

section \<open>Evaluation\<close>

lemmas path_defs = join_def endswith_sep_def abspath_def normpath_def initial_slashes_def
  norm_step_def relpath_def repo_path_of_def REPO_DIR_def

lemmas fs_defs = fs_lookup_def exists_def isfile_def open_read_def

lemmas read_defs = get_file_def analyze_files_def list_files_def falsy_def within_repo_def
  read_text_def decode_def file_records_def is_cont_def cp2_def

lemmas clone_defs = clone_repo_def clone_try_def remove_existing_def clone_url_def

lemmas sim_defs = sim_tools_def sim_rm_def sim_git_def snapshot_name_def set_repos_def
  sample_remote_def

section \<open>The security check\<close>

text \<open>
  C1. Claim: every relative path with traversal segments that resolves outside the
  snapshot root is rejected by the single-file read and by the batch read, and no content
  from outside the root is returned. The claim's own example \<^verbatim>\<open>../../etc/passwd\<close> is
  rejected with status 400. The path \<^verbatim>\<open>../a_bc/secret\<close>, requested under the key
  \<open>(a, b)\<close>, resolves to \<^verbatim>\<open>/repos/a_bc/secret\<close>, outside the root \<^verbatim>\<open>/repos/a_b\<close>;
  both reads return that file's content.
\<close>

theorem traversal_reaches_sibling_snapshot:
  "get_file sample_world (Some ''a'') (Some ''b'') ''../../etc/passwd''
     = ErrorResponse 400 (Text ''Invalid file path'')
   \<and> get_file sample_world (Some ''a'') (Some ''b'') ''../a_bc/secret''
     = FileContent ''../a_bc/secret'' [0x73]
   \<and> analyze_files sample_world (Some ''a'') (Some ''b'') [''../a_bc/secret''] MaxAbsent
     = Analyzed [Entry ''../a_bc/secret'' [0x73] None]"
  by (simp add: path_defs fs_defs read_defs sample_world_def)

text \<open>
  C2. Claim: the resolver accepts a path only if the canonical target is contained in the
  canonical root by path segments, so a sibling directory whose name extends the root's
  name is rejected. For the root \<^verbatim>\<open>/repos/a_b\<close> and the path \<^verbatim>\<open>../a_bc/secret\<close>
  the canonical target is \<^verbatim>\<open>/repos/a_bc/secret\<close>: the check of the source, a
  comparison of strings, accepts it, and it is not contained by segments.
\<close>

theorem prefix_check_accepts_sibling:
  "abspath (cwd sample_world) (repo_path_of ''a'' ''b'') = ''/repos/a_b''
   \<and> abspath (cwd sample_world) (join (repo_path_of ''a'' ''b'') ''../a_bc/secret'')
       = ''/repos/a_bc/secret''
   \<and> within_repo sample_world (repo_path_of ''a'' ''b'')
        (join (repo_path_of ''a'' ''b'') ''../a_bc/secret'')
   \<and> \<not> segment_contained ''/repos/a_b'' ''/repos/a_bc/secret''"
  by (simp add: path_defs within_repo_def segment_contained_def segments_def sample_world_def)

section \<open>The inventory walker\<close>

text \<open>
  C4. Claim: the file list holds one record for every regular file outside the
  version-control metadata directory, files such as \<^verbatim>\<open>.gitignore\<close> included. The
  snapshot of the key \<open>(a, b)\<close> holds the regular file \<^verbatim>\<open>.gitignore\<close>; the list
  returned for the key has no record for it.
\<close>

theorem walker_omits_gitignore:
  "fs_lookup sample_world ''/repos/a_b/.gitignore'' = Some (File True [0x2A])
   \<and> list_files sample_world (Some ''a'') (Some ''b'')
     = FileList [FileRecord ''README.md'' 2, FileRecord ''cafe.txt'' 4,
         FileRecord ''locked'' 1, FileRecord ''src/m.py'' 3]"
  by (simp add: path_defs fs_defs read_defs sample_world_def)

section \<open>The size cap of the batch reader\<close>

text \<open>
  What the cap does bound is the number of decoded characters, and only when it is not
  negative; \<^verbatim>\<open>null\<close> and a negative number read the whole file.
\<close>

lemma read_text_character_cap:
  "0 \<le> n \<Longrightarrow> length (read_text (Some n) bs) \<le> nat n"
  by (simp add: read_text_def)

lemma read_text_uncapped:
  "read_text None bs = decode bs" and "n < 0 \<Longrightarrow> read_text (Some n) bs = decode bs"
  by (simp_all add: read_text_def)

text \<open>
  C5. Claim: the batch read returns at most \<open>max_size\<close> bytes of raw content, the cap
  being a budget of bytes and not of decoded characters. The file \<^verbatim>\<open>cafe.txt\<close> holds
  four bytes, two characters of two bytes each. With \<open>max_size = 2\<close> the entry holds both
  characters, the content of all four bytes; the first two bytes decode to one character.
\<close>

theorem batch_cap_counts_characters:
  "fs_lookup sample_world ''/repos/a_b/cafe.txt'' = Some (File True [0xC3, 0xA9, 0xC3, 0xA9])
   \<and> analyze_files sample_world (Some ''a'') (Some ''b'') [''cafe.txt''] (MaxInt 2)
     = Analyzed [Entry ''cafe.txt'' [233, 233] None]
   \<and> decode (take 2 [0xC3, 0xA9, 0xC3, 0xA9]) = [233]"
  by (simp add: path_defs fs_defs read_defs sample_world_def)

section \<open>Keys and directories\<close>

text \<open>
  C9. Claim: the mapping from keys to directories is not injective: the distinct keys
  \<open>(a, b_c)\<close> and \<open>(a_b, c)\<close> have the same directory, so a clone for one replaces the
  snapshot that listings and reads see under the other. Here the key \<open>(a_b, c)\<close> is
  cloned first and lists \<^verbatim>\<open>two.txt\<close>; after a clone for \<open>(a, b_c)\<close> the listing under
  \<open>(a_b, c)\<close> is \<^verbatim>\<open>one.txt\<close> and \<^verbatim>\<open>two.txt\<close> is not found.
\<close>

theorem key_collision:
  "(''a'', ''b_c'') \<noteq> (''a_b'', ''c'')
   \<and> repo_path_of ''a'' ''b_c'' = repo_path_of ''a_b'' ''c''
   \<and> (case clone_repo (sim_tools sample_remote) empty_world
              (Some ''https://github.com/a_b/c'') (Some ''a_b'') (Some ''c'') None of
         (r1, w1) \<Rightarrow>
           r1 = Cloned ''/repos/a_b_c''
           \<and> list_files w1 (Some ''a_b'') (Some ''c'') = FileList [FileRecord ''two.txt'' 2]
           \<and> (case clone_repo (sim_tools sample_remote) w1
                      (Some ''https://github.com/a/b_c'') (Some ''a'') (Some ''b_c'') None of
                 (r2, w2) \<Rightarrow>
                   r2 = Cloned ''/repos/a_b_c''
                   \<and> list_files w2 (Some ''a_b'') (Some ''c'') = FileList [FileRecord ''one.txt'' 1]
                   \<and> get_file w2 (Some ''a_b'') (Some ''c'') ''two.txt''
                       = ErrorResponse 404 (Text ''File not found'')))"
  by (simp add: path_defs fs_defs read_defs clone_defs sim_defs empty_world_def)

section \<open>The fetch URL\<close>




section \<open>The batch reader\<close>











section \<open>Missing targets and directories\<close>

text \<open>
  C8, as stated: every read operation rejects a missing target and a directory with two
  distinct error kinds. The batch read does not: under the key \<open>(a, b)\<close> the
  path \<^verbatim>\<open>nope\<close> names nothing and \<^verbatim>\<open>src\<close> names a directory, and both entries carry
  the same error.
\<close>

theorem batch_merges_missing_and_directory:
  "fs_lookup sample_world (join (repo_path_of ''a'' ''b'') ''nope'') = None
   \<and> fs_lookup sample_world (join (repo_path_of ''a'' ''b'') ''src'')
       = Some (Dir [(''m.py'', File True [0x61, 0x62, 0x63])])
   \<and> analyze_files sample_world (Some ''a'') (Some ''b'') [''nope'', ''src''] MaxAbsent
       = Analyzed [Entry ''nope'' [] (Some (Text ''File not found'')),
                   Entry ''src'' [] (Some (Text ''File not found''))]"
  by (simp add: path_defs fs_defs read_defs sample_world_def)

text \<open>
  C8, amended. For a path that passes the security check, the single-file read answers
  a missing target with status 404 and \<^verbatim>\<open>File not found\<close>, and an existing target that
  is not a regular file with status 400 and \<^verbatim>\<open>Path is not a file\<close>; the batch read
  gives both the same entry: empty content and the error \<^verbatim>\<open>File not found\<close>.
\<close>

theorem missing_and_directory_errors:
  assumes "\<not> falsy owner" and "\<not> falsy repo"
    and "within_repo w (repo_path_of (the owner) (the repo))
           (join (repo_path_of (the owner) (the repo)) file_path)"
  shows "(\<not> exists w (join (repo_path_of (the owner) (the repo)) file_path) \<longrightarrow>
            get_file w owner repo file_path = ErrorResponse 404 (Text ''File not found''))
     \<and> (exists w (join (repo_path_of (the owner) (the repo)) file_path)
          \<and> \<not> isfile w (join (repo_path_of (the owner) (the repo)) file_path) \<longrightarrow>
            get_file w owner repo file_path = ErrorResponse 400 (Text ''Path is not a file''))
     \<and> (exists w (repo_path_of (the owner) (the repo))
          \<and> \<not> isfile w (join (repo_path_of (the owner) (the repo)) file_path) \<longrightarrow>
            analyze_files w owner repo [file_path] max_size
              = Analyzed [Entry file_path [] (Some (Text ''File not found''))])"
  using assms by (simp add: get_file_def analyze_files_def Let_def)

theorem missing_and_directory_errors_witness:
  "get_file sample_world (Some ''a'') (Some ''b'') ''nope''
     = ErrorResponse 404 (Text ''File not found'')
   \<and> get_file sample_world (Some ''a'') (Some ''b'') ''src''
     = ErrorResponse 400 (Text ''Path is not a file'')
   \<and> analyze_files sample_world (Some ''a'') (Some ''b'') [''nope''] MaxAbsent
     = Analyzed [Entry ''nope'' [] (Some (Text ''File not found''))]
   \<and> analyze_files sample_world (Some ''a'') (Some ''b'') [''src''] MaxAbsent
     = Analyzed [Entry ''src'' [] (Some (Text ''File not found''))]"
proof -
  have k: "\<not> falsy (Some ''a'')" "\<not> falsy (Some ''b'')"
    by (simp_all add: falsy_def)
  have in1: "within_repo sample_world (repo_path_of (the (Some ''a'')) (the (Some ''b'')))
       (join (repo_path_of (the (Some ''a'')) (the (Some ''b''))) ''nope'')"
    and in2: "within_repo sample_world (repo_path_of (the (Some ''a'')) (the (Some ''b'')))
       (join (repo_path_of (the (Some ''a'')) (the (Some ''b''))) ''src'')"
    by (simp_all add: path_defs within_repo_def sample_world_def)
  have st: "\<not> exists sample_world (join (repo_path_of (the (Some ''a'')) (the (Some ''b''))) ''nope'')"
    "\<not> isfile sample_world (join (repo_path_of (the (Some ''a'')) (the (Some ''b''))) ''nope'')"
    "exists sample_world (join (repo_path_of (the (Some ''a'')) (the (Some ''b''))) ''src'')"
    "\<not> isfile sample_world (join (repo_path_of (the (Some ''a'')) (the (Some ''b''))) ''src'')"
    "exists sample_world (repo_path_of (the (Some ''a'')) (the (Some ''b'')))"
    by (simp_all add: path_defs fs_defs sample_world_def)
  show ?thesis
    using missing_and_directory_errors [OF k in1, of MaxAbsent]
      missing_and_directory_errors [OF k in2, of MaxAbsent] st
    by blast
qed

section \<open>Failures of a clone\<close>

text \<open>
  C6. A clone request with its required parameters answers with the snapshot's path
  when nothing fails, and otherwise with status 500 and exactly the error of the failure
  met: the client's diagnostic output after \<^verbatim>\<open>Git clone failed: \<close> when the client
  exits non-zero, \<^verbatim>\<open>Clone operation timed out\<close> when it runs into the timeout, and the
  text of the exception for anything else. A deletion that fails is such an exception:
  the handler stops there, and the filesystem is the one \<^verbatim>\<open>rm\<close> left.
\<close>

theorem clone_failure_kinds:
  assumes "\<not> falsy repo_url" and "\<not> falsy owner" and "\<not> falsy repo"
  shows "fst (clone_repo T w repo_url owner repo token)
       = (case clone_failure T w (the repo_url) token (repo_path_of (the owner) (the repo)) of
            None \<Rightarrow> Cloned (repo_path_of (the owner) (the repo))
          | Some (ExternalToolFailure diagnostic) \<Rightarrow>
              ErrorResponse 500 (Text (''Git clone failed: '' @ diagnostic))
          | Some TimeoutFailure \<Rightarrow> ErrorResponse 500 (Text ''Clone operation timed out'')
          | Some (UnexpectedFailure e) \<Rightarrow> ErrorResponse 500 (Str e))
     \<and> (deletion_failure T w (repo_path_of (the owner) (the repo)) \<noteq> None \<longrightarrow>
          snd (clone_repo T w repo_url owner repo token)
            = snd (rm_rf T w (repo_path_of (the owner) (the repo))))"
  using assms
  by (auto simp add: clone_repo_def clone_try_def remove_existing_def clone_failure_def
        deletion_failure_def after_deletion_def Let_def
      split: prod.splits sum.splits rm_outcome.splits git_outcome.splits exn.splits if_splits)

theorem clone_failure_kinds_witness:
  "fst (clone_repo (sim_tools sample_remote) sample_world
          (Some ''https://github.com/x/y'') (Some ''a'') (Some ''b'') None)
     = ErrorResponse 500 (Text ''Git clone failed: fatal: repository not found'')
   \<and> fst (clone_repo broken_tools empty_world
          (Some ''https://github.com/a/b'') (Some ''a'') (Some ''b'') None)
     = ErrorResponse 500 (Text ''Clone operation timed out'')
   \<and> clone_repo broken_tools sample_world
          (Some ''https://github.com/a/b'') (Some ''a'') (Some ''b'') None
     = (ErrorResponse 500 (Str (CalledProcessError [''rm'', ''-rf'', ''/repos/a_b''] 1)),
        sample_world)"
proof -
  have k: "\<not> falsy (Some ''https://github.com/x/y'')" "\<not> falsy (Some ''https://github.com/a/b'')"
    "\<not> falsy (Some ''a'')" "\<not> falsy (Some ''b'')"
    by (simp_all add: falsy_def)
  have c1: "clone_failure (sim_tools sample_remote) sample_world
      (the (Some ''https://github.com/x/y'')) None (repo_path_of (the (Some ''a'')) (the (Some ''b'')))
      = Some (ExternalToolFailure ''fatal: repository not found'')"
    by (simp add: clone_failure_def deletion_failure_def after_deletion_def path_defs fs_defs
          clone_url_def falsy_def sim_defs sample_world_def)
  have c2: "clone_failure broken_tools empty_world
      (the (Some ''https://github.com/a/b'')) None (repo_path_of (the (Some ''a'')) (the (Some ''b'')))
      = Some TimeoutFailure"
    by (simp add: clone_failure_def deletion_failure_def after_deletion_def path_defs fs_defs
          clone_url_def falsy_def broken_tools_def empty_world_def)
  have d3: "deletion_failure broken_tools sample_world (repo_path_of (the (Some ''a'')) (the (Some ''b'')))
      = Some (CalledProcessError [''rm'', ''-rf'', ''/repos/a_b''] 1)"
    by (simp add: deletion_failure_def path_defs fs_defs broken_tools_def sample_world_def)
  then have c3: "clone_failure broken_tools sample_world
      (the (Some ''https://github.com/a/b'')) None (repo_path_of (the (Some ''a'')) (the (Some ''b'')))
      = Some (UnexpectedFailure (CalledProcessError [''rm'', ''-rf'', ''/repos/a_b''] 1))"
    by (simp add: clone_failure_def)
  have r3: "snd (rm_rf broken_tools sample_world (repo_path_of (the (Some ''a'')) (the (Some ''b''))))
      = sample_world"
    by (simp add: broken_tools_def)
  have "fst (clone_repo (sim_tools sample_remote) sample_world
          (Some ''https://github.com/x/y'') (Some ''a'') (Some ''b'') None)
     = ErrorResponse 500 (Text ''Git clone failed: fatal: repository not found'')"
    using clone_failure_kinds [OF k(1) k(3) k(4), of "sim_tools sample_remote" sample_world None] c1
    by simp
  moreover have "fst (clone_repo broken_tools empty_world
          (Some ''https://github.com/a/b'') (Some ''a'') (Some ''b'') None)
     = ErrorResponse 500 (Text ''Clone operation timed out'')"
    using clone_failure_kinds [OF k(2) k(3) k(4), of broken_tools empty_world None] c2
    by simp
  moreover have "clone_repo broken_tools sample_world
          (Some ''https://github.com/a/b'') (Some ''a'') (Some ''b'') None
     = (ErrorResponse 500 (Str (CalledProcessError [''rm'', ''-rf'', ''/repos/a_b''] 1)),
        sample_world)"
    using clone_failure_kinds [OF k(2) k(3) k(4), of broken_tools sample_world None] c3 d3 r3
    by (simp add: prod_eq_iff)
  ultimately show ?thesis by simp
qed

section \<open>Successive clones\<close>

lemma clone_success_run:
  assumes "clone_repo T w (Some u) (Some ow) (Some rp) tok = (Cloned p, w')"
  shows "p = repo_path_of ow rp \<and> deletion_failure T w (repo_path_of ow rp) = None
     \<and> (\<exists>se. git_clone T (after_deletion T w (repo_path_of ow rp)) (clone_url u tok)
                 (repo_path_of ow rp) = (GitExit 0 se, w'))"
  using assms
  by (auto simp add: clone_repo_def clone_try_def remove_existing_def
        deletion_failure_def after_deletion_def Let_def
      split: prod.splits sum.splits rm_outcome.splits git_outcome.splits exn.splits if_splits)

lemma absent_after_deletion:
  assumes "deletion_failure T w p = None"
    and "\<And>v v'. rm_rf T v p = (RmExit 0, v') \<Longrightarrow> \<not> exists v' p"
  shows "\<not> exists (after_deletion T w p) p"
proof (cases "exists w p")
  case False
  then show ?thesis by (simp add: after_deletion_def)
next
  case True
  obtain r v' where run: "rm_rf T w p = (r, v')" by (cases "rm_rf T w p")
  with True assms(1) have "r = RmExit 0"
    by (auto simp add: deletion_failure_def split: rm_outcome.splits if_splits)
  with run assms(2) have "\<not> exists v' p" by blast
  with True run show ?thesis by (simp add: after_deletion_def)
qed

lemma map_of_filter_absent: "map_of (filter (\<lambda>e. fst e \<noteq> k) es) k = None"
  by (induction es) auto

lemma sim_rm_absent:
  "sim_rm w ''/repos/a_b_c'' = (RmExit 0, w') \<Longrightarrow> \<not> exists w' ''/repos/a_b_c''"
  by (auto simp add: sim_rm_def snapshot_name_def set_repos_def fs_defs map_of_filter_absent
      split: option.splits node.splits)

lemma sim_git_written:
  "\<not> exists w ''/repos/a_b_c'' \<Longrightarrow> sim_git remote w u ''/repos/a_b_c'' = (GitExit 0 se, w') \<Longrightarrow>
     \<exists>t. remote u = Some t \<and> fs_lookup w' ''/repos/a_b_c'' = Some (Dir t)"
  by (auto simp add: sim_git_def snapshot_name_def set_repos_def fs_defs
      split: option.splits node.splits if_splits)

text \<open>
  C7. Two successive successful clones for one key, with tools that keep their
  contracts (an \<^verbatim>\<open>rm -rf\<close> that exits 0 leaves nothing at the path; a \<^verbatim>\<open>git clone\<close>
  that exits 0 on a path where nothing stood leaves there the tree it checked out).
  Both answer with the directory of the key; that directory exists after the first
  clone, is gone when the second clone starts its checkout, and after the second clone
  it is exactly the tree of the second checkout.
\<close>

theorem successive_clones:
  assumes first: "clone_repo T w0 (Some u1) (Some ow) (Some rp) tok1 = (Cloned p1, w1)"
    and second: "clone_repo T w1 (Some u2) (Some ow) (Some rp) tok2 = (Cloned p2, w2)"
    and rm_contract: "\<forall>w w'. rm_rf T w (repo_path_of ow rp) = (RmExit 0, w') \<longrightarrow>
          \<not> exists w' (repo_path_of ow rp)"
    and git_contract: "\<forall>w w' u se. \<not> exists w (repo_path_of ow rp)
          \<and> git_clone T w u (repo_path_of ow rp) = (GitExit 0 se, w') \<longrightarrow>
          (\<exists>t. worktree T u = Some t \<and> fs_lookup w' (repo_path_of ow rp) = Some (Dir t))"
  shows "p1 = repo_path_of ow rp \<and> p2 = repo_path_of ow rp
     \<and> exists w1 (repo_path_of ow rp)
     \<and> \<not> exists (after_deletion T w1 (repo_path_of ow rp)) (repo_path_of ow rp)
     \<and> (\<exists>se. git_clone T (after_deletion T w1 (repo_path_of ow rp)) (clone_url u2 tok2)
                 (repo_path_of ow rp) = (GitExit 0 se, w2))
     \<and> (\<exists>t. worktree T (clone_url u2 tok2) = Some t
            \<and> fs_lookup w2 (repo_path_of ow rp) = Some (Dir t))"
proof -
  let ?p = "repo_path_of ow rp"
  from clone_success_run [OF first] obtain se1 where
    p1: "p1 = ?p" and d1: "deletion_failure T w0 ?p = None"
    and g1: "git_clone T (after_deletion T w0 ?p) (clone_url u1 tok1) ?p = (GitExit 0 se1, w1)"
    by blast
  from clone_success_run [OF second] obtain se2 where
    p2: "p2 = ?p" and d2: "deletion_failure T w1 ?p = None"
    and g2: "git_clone T (after_deletion T w1 ?p) (clone_url u2 tok2) ?p = (GitExit 0 se2, w2)"
    by blast
  have a1: "\<not> exists (after_deletion T w0 ?p) ?p"
    using absent_after_deletion [OF d1] rm_contract by blast
  have a2: "\<not> exists (after_deletion T w1 ?p) ?p"
    using absent_after_deletion [OF d2] rm_contract by blast
  have "\<exists>t. worktree T (clone_url u1 tok1) = Some t \<and> fs_lookup w1 ?p = Some (Dir t)"
    using git_contract a1 g1 by blast
  then have e1: "exists w1 ?p"
    by (auto simp add: exists_def)
  from git_contract a2 g2 obtain t where
    t: "worktree T (clone_url u2 tok2) = Some t" "fs_lookup w2 ?p = Some (Dir t)"
    by blast
  show ?thesis using p1 p2 e1 a2 g2 t by blast
qed

theorem successive_clones_witness:
  "clone_repo (sim_tools sample_remote) empty_world (Some ''https://github.com/a/b_c'')
       (Some ''a'') (Some ''b_c'') None
     = (Cloned ''/repos/a_b_c'',
        \<lparr>root = [(''repos'', Dir [(''a_b_c'', Dir
            [(''.git'', Dir [(''HEAD'', File True [0x72])]), (''one.txt'', File True [0x31])])])],
         cwd = ''/app''\<rparr>)
   \<and> fs_lookup
        (snd (clone_repo (sim_tools sample_remote)
           (snd (clone_repo (sim_tools sample_remote) empty_world
              (Some ''https://github.com/a/b_c'') (Some ''a'') (Some ''b_c'') None))
           (Some ''https://github.com/a_b/c'') (Some ''a'') (Some ''b_c'') None))
        ''/repos/a_b_c''
     = Some (Dir [(''.git'', Dir [(''HEAD'', File True [0x72])]),
                  (''two.txt'', File True [0x32, 0x32])])"
proof -
  let ?T = "sim_tools sample_remote"
  let ?w1 = "\<lparr>root = [(''repos'', Dir [(''a_b_c'', Dir
            [(''.git'', Dir [(''HEAD'', File True [0x72])]), (''one.txt'', File True [0x31])])])],
         cwd = ''/app''\<rparr>"
  let ?w2 = "snd (clone_repo ?T ?w1 (Some ''https://github.com/a_b/c'') (Some ''a'') (Some ''b_c'') None)"
  have p: "repo_path_of ''a'' ''b_c'' = ''/repos/a_b_c''"
    by (simp add: path_defs)
  have first: "clone_repo ?T empty_world (Some ''https://github.com/a/b_c'')
       (Some ''a'') (Some ''b_c'') None = (Cloned ''/repos/a_b_c'', ?w1)"
    by (simp add: path_defs fs_defs clone_defs sim_defs falsy_def empty_world_def)
  have second: "clone_repo ?T ?w1 (Some ''https://github.com/a_b/c'')
       (Some ''a'') (Some ''b_c'') None = (Cloned ''/repos/a_b_c'', ?w2)"
    by (simp add: path_defs fs_defs clone_defs sim_defs falsy_def)
  have rm: "\<forall>w w'. rm_rf ?T w (repo_path_of ''a'' ''b_c'') = (RmExit 0, w') \<longrightarrow>
          \<not> exists w' (repo_path_of ''a'' ''b_c'')"
  proof (intro allI impI)
    fix w w'
    assume "rm_rf ?T w (repo_path_of ''a'' ''b_c'') = (RmExit 0, w')"
    then show "\<not> exists w' (repo_path_of ''a'' ''b_c'')"
      using sim_rm_absent [of w w'] by (simp add: p sim_tools_def)
  qed
  have git: "\<forall>w w' u se. \<not> exists w (repo_path_of ''a'' ''b_c'')
          \<and> git_clone ?T w u (repo_path_of ''a'' ''b_c'') = (GitExit 0 se, w') \<longrightarrow>
          (\<exists>t. worktree ?T u = Some t \<and> fs_lookup w' (repo_path_of ''a'' ''b_c'') = Some (Dir t))"
  proof (intro allI impI, elim conjE)
    fix w w' u se
    assume "\<not> exists w (repo_path_of ''a'' ''b_c'')"
      and "git_clone ?T w u (repo_path_of ''a'' ''b_c'') = (GitExit 0 se, w')"
    then show "\<exists>t. worktree ?T u = Some t
        \<and> fs_lookup w' (repo_path_of ''a'' ''b_c'') = Some (Dir t)"
      using sim_git_written [of w sample_remote u se w'] by (simp add: p sim_tools_def)
  qed
  have "\<exists>t. worktree ?T (clone_url ''https://github.com/a_b/c'' None) = Some t
      \<and> fs_lookup ?w2 (repo_path_of ''a'' ''b_c'') = Some (Dir t)"
    by (rule successive_clones [OF first second rm git,
          THEN conjunct2, THEN conjunct2, THEN conjunct2, THEN conjunct2, THEN conjunct2])
  then have "fs_lookup ?w2 ''/repos/a_b_c''
      = Some (Dir [(''.git'', Dir [(''HEAD'', File True [0x72])]),
                  (''two.txt'', File True [0x32, 0x32])])"
    by (simp add: p sim_tools_def sample_remote_def clone_url_def falsy_def)
  with first show ?thesis by simp
qed

end
